theory Spec2Isabelle
  imports Main "HOL-Library.Sublist"
begin

section \<open>Python values used by \<open>Scripts/invoke_bedrock.py\<close>\<close>

text \<open>
  A Python \<open>str\<close> is a sequence of code points (\<open>nat\<close>, below \<open>0x110000\<close>); \<open>bytes\<close>
  are a \<open>char list\<close> (an Isabelle \<open>char\<close> is one octet). The interpreter's resource
  limits (recursion depth, memory, the digit limit of int/str conversion) are not part of
  the model; text files are read and written as on POSIX (\<open>os.linesep\<close> is a line feed).
\<close>

type_synonym pystr = "nat list"
type_synonym bytes = "char list"

definition str_of :: "string \<Rightarrow> pystr" where
  "str_of s = map of_char s"

text \<open>
  The values \<open>json.load\<close> produces. A \<open>dict\<close> keeps insertion order, so it is an
  association list. A \<open>float\<close> is represented by its \<open>float.__repr__\<close> text (\<open>NaN\<close>,
  \<open>Infinity\<close> and \<open>-Infinity\<close> for the three special values, as \<open>floatstr\<close> prints
  them): floating-point arithmetic itself is a parameter of the parser, see
  \<open>scan_once\<close>.
\<close>

datatype json =
    JNull
  | JBool bool
  | JInt int
  | JFloat pystr
  | JStr pystr
  | JArr "json list"
  | JObj "(pystr \<times> json) list"

subsection \<open>\<open>int.__repr__\<close> and \<open>'{0:04x}'.format\<close>\<close>

function digits10 :: "nat \<Rightarrow> pystr" where
  "digits10 n = (if n < 10 then [48 + n] else digits10 (n div 10) @ [48 + n mod 10])"
  by pat_completeness auto
termination
  by (relation "measure id") auto

declare digits10.simps [simp del]

definition int_repr :: "int \<Rightarrow> pystr" where
  "int_repr i = (if i < 0 then 45 # digits10 (nat (- i)) else digits10 (nat i))"

definition hexdigit :: "nat \<Rightarrow> nat" where
  "hexdigit d = (if d < 10 then 48 + d else 87 + d)"

definition hex4 :: "nat \<Rightarrow> pystr" where
  "hex4 n = [hexdigit (n div 4096 mod 16), hexdigit (n div 256 mod 16),
             hexdigit (n div 16 mod 16), hexdigit (n mod 16)]"

section \<open>\<open>json/encoder.py\<close>\<close>

text \<open>\<open>ESCAPE_DCT\<close>: the short escapes, and \<open>\u00XX\<close> for the other control characters.\<close>

definition ESCAPE_DCT :: "nat \<Rightarrow> pystr option" where
  "ESCAPE_DCT c =
     (if c = 92 then Some [92, 92]
      else if c = 34 then Some [92, 34]
      else if c = 8 then Some [92, 98]
      else if c = 12 then Some [92, 102]
      else if c = 10 then Some [92, 110]
      else if c = 13 then Some [92, 114]
      else if c = 9 then Some [92, 116]
      else if c < 32 then Some ([92, 117] @ hex4 c)
      else None)"

text \<open>\<open>ESCAPE = [\x00-\x1f\\"\b\f\n\r\t]\<close>: what \<open>py_encode_basestring\<close> replaces.\<close>

definition ESCAPE :: "nat \<Rightarrow> bool" where
  "ESCAPE c \<longleftrightarrow> c < 32 \<or> c = 92 \<or> c = 34"

definition replace_basestring :: "nat \<Rightarrow> pystr" where
  "replace_basestring c = (if ESCAPE c then the (ESCAPE_DCT c) else [c])"

definition py_encode_basestring :: "pystr \<Rightarrow> pystr" where
  "py_encode_basestring s = [34] @ concat (map replace_basestring s) @ [34]"

text \<open>\<open>ESCAPE_ASCII = ([\\"]|[^\ -~])\<close>: what \<open>py_encode_basestring_ascii\<close> replaces.\<close>

definition ESCAPE_ASCII :: "nat \<Rightarrow> bool" where
  "ESCAPE_ASCII c \<longleftrightarrow> c = 92 \<or> c = 34 \<or> c < 32 \<or> 126 < c"

definition replace_ascii :: "nat \<Rightarrow> pystr" where
  "replace_ascii c =
     (if ESCAPE_ASCII c then
        (case ESCAPE_DCT c of
           Some e \<Rightarrow> e
         | None \<Rightarrow>
             if c < 65536 then [92, 117] @ hex4 c
             else (let n = c - 65536;
                       s1 = 55296 + (n div 1024) mod 1024;
                       s2 = 56320 + n mod 1024
                   in [92, 117] @ hex4 s1 @ [92, 117] @ hex4 s2))
      else [c])"

definition py_encode_basestring_ascii :: "pystr \<Rightarrow> pystr" where
  "py_encode_basestring_ascii s = [34] @ concat (map replace_ascii s) @ [34]"

text \<open>
  The options of a \<open>JSONEncoder\<close> that the script sets: \<open>json.dumps(x)\<close> uses
  \<open>ensure_ascii=True\<close>, no indent and the separators \<open>', '\<close> and \<open>': '\<close>;
  \<open>json.dump(x, f, ensure_ascii=False, indent=2)\<close> uses the item separator \<open>','\<close>.
\<close>

record encoder =
  ensure_ascii :: bool
  indent :: "nat option"
  item_separator :: pystr
  key_separator :: pystr

definition default_encoder :: encoder where
  "default_encoder =
     \<lparr>ensure_ascii = True, indent = None, item_separator = [44, 32], key_separator = [58, 32]\<rparr>"

definition dump_encoder :: encoder where
  "dump_encoder =
     \<lparr>ensure_ascii = False, indent = Some 2, item_separator = [44], key_separator = [58, 32]\<rparr>"

definition encode_str :: "encoder \<Rightarrow> pystr \<Rightarrow> pystr" where
  "encode_str e s =
     (if ensure_ascii e then py_encode_basestring_ascii s else py_encode_basestring s)"

text \<open>The text of a value that is not a container (the branches before the \<open>else\<close>).\<close>

fun atom_text :: "encoder \<Rightarrow> json \<Rightarrow> pystr option" where
  "atom_text e (JStr s) = Some (encode_str e s)"
| "atom_text e JNull = Some (str_of ''null'')"
| "atom_text e (JBool b) = Some (if b then str_of ''true'' else str_of ''false'')"
| "atom_text e (JInt i) = Some (int_repr i)"
| "atom_text e (JFloat r) = Some r"
| "atom_text e (JArr xs) = None"
| "atom_text e (JObj kvs) = None"

text \<open>\<open>'\n' + _indent * level\<close>, when an indent is set.\<close>

definition newline_indent :: "encoder \<Rightarrow> nat \<Rightarrow> pystr" where
  "newline_indent e lvl =
     (case indent e of None \<Rightarrow> [] | Some n \<Rightarrow> 10 # replicate (n * lvl) 32)"

definition inner_level :: "encoder \<Rightarrow> nat \<Rightarrow> nat" where
  "inner_level e lvl = (case indent e of None \<Rightarrow> lvl | Some n \<Rightarrow> lvl + 1)"

definition closing :: "encoder \<Rightarrow> nat \<Rightarrow> pystr list" where
  "closing e lvl = (case indent e of None \<Rightarrow> [] | Some n \<Rightarrow> [newline_indent e lvl])"

text \<open>
  \<open>_make_iterencode\<close>: the chunks the generator yields, in order. \<open>iterencode_list\<close> is the
  loop of \<open>_iterencode_list\<close> with its variable \<open>buf\<close>, \<open>iterencode_dict\<close> the loop of
  \<open>_iterencode_dict\<close> with its flag \<open>first\<close>.
\<close>

fun iterencode :: "encoder \<Rightarrow> nat \<Rightarrow> json \<Rightarrow> pystr list"
  and iterencode_list :: "encoder \<Rightarrow> nat \<Rightarrow> pystr \<Rightarrow> json list \<Rightarrow> pystr list"
  and iterencode_dict :: "encoder \<Rightarrow> nat \<Rightarrow> bool \<Rightarrow> (pystr \<times> json) list \<Rightarrow> pystr list"
where
  "iterencode e lvl (JArr xs) =
     (if xs = [] then [[91, 93]]
      else iterencode_list e (inner_level e lvl) (91 # newline_indent e (inner_level e lvl)) xs
           @ closing e lvl @ [[93]])"
| "iterencode e lvl (JObj kvs) =
     (if kvs = [] then [[123, 125]]
      else [[123]] @ (case indent e of None \<Rightarrow> [] | Some n \<Rightarrow> [newline_indent e (inner_level e lvl)])
           @ iterencode_dict e (inner_level e lvl) True kvs
           @ closing e lvl @ [[125]])"
| "iterencode e lvl JNull = [the (atom_text e JNull)]"
| "iterencode e lvl (JBool b) = [the (atom_text e (JBool b))]"
| "iterencode e lvl (JInt i) = [the (atom_text e (JInt i))]"
| "iterencode e lvl (JFloat r) = [the (atom_text e (JFloat r))]"
| "iterencode e lvl (JStr s) = [the (atom_text e (JStr s))]"
| "iterencode_list e lvl buf [] = []"
| "iterencode_list e lvl buf (x # xs) =
     (case atom_text e x of
        Some t \<Rightarrow> [buf @ t]
      | None \<Rightarrow> buf # iterencode e lvl x)
     @ iterencode_list e lvl (item_separator e @ newline_indent e lvl) xs"
| "iterencode_dict e lvl first [] = []"
| "iterencode_dict e lvl first (kv # kvs) =
     (if first then [] else [item_separator e @ newline_indent e lvl])
     @ [encode_str e (fst kv), key_separator e]
     @ (case atom_text e (snd kv) of
          Some t \<Rightarrow> [t]
        | None \<Rightarrow> iterencode e lvl (snd kv))
     @ iterencode_dict e lvl False kvs"

text \<open>\<open>json.dumps(obj)\<close>: the chunks of the default encoder, joined.\<close>

definition json_dumps :: "json \<Rightarrow> pystr" where
  "json_dumps v = concat (iterencode default_encoder 0 v)"

section \<open>\<open>json/decoder.py\<close> and \<open>json/scanner.py\<close>\<close>

text \<open>
  A \<open>JSONDecodeError\<close> is raised with a message and a position. The scanning functions
  work on the rest of the document and report the number of characters that were left
  at the position of the error; \<open>decode\<close> turns it into the index.
\<close>

datatype jmsg =
    ExpectingValue
  | ExtraData
  | ExpectingPropertyName
  | ExpectingColon
  | ExpectingComma
  | UnterminatedString
  | InvalidControlCharacter
  | InvalidEscape
  | InvalidUXXXX
  | UnexpectedBOM
  | NestingTooDeep

type_synonym 'a scanned = "(jmsg \<times> nat) + ('a \<times> pystr)"

definition WHITESPACE :: "nat \<Rightarrow> bool" where
  "WHITESPACE c \<longleftrightarrow> c = 32 \<or> c = 9 \<or> c = 10 \<or> c = 13"

definition skip_ws :: "pystr \<Rightarrow> pystr" where
  "skip_ws cs = dropWhile WHITESPACE cs"

definition BACKSLASH :: "nat \<Rightarrow> nat option" where
  "BACKSLASH c =
     (if c = 34 then Some 34
      else if c = 92 then Some 92
      else if c = 47 then Some 47
      else if c = 98 then Some 8
      else if c = 102 then Some 12
      else if c = 110 then Some 10
      else if c = 114 then Some 13
      else if c = 116 then Some 9
      else None)"

definition hexval :: "nat \<Rightarrow> nat option" where
  "hexval c =
     (if 48 \<le> c \<and> c \<le> 57 then Some (c - 48)
      else if 97 \<le> c \<and> c \<le> 102 then Some (c - 87)
      else if 65 \<le> c \<and> c \<le> 70 then Some (c - 55)
      else None)"

text \<open>\<open>_decode_uXXXX\<close>, on the characters after the \<open>u\<close>: four hexadecimal digits.\<close>

definition decode_uXXXX :: "pystr \<Rightarrow> nat option" where
  "decode_uXXXX cs =
     (case map hexval (take 4 cs) of
        [Some a, Some b, Some c, Some d] \<Rightarrow> Some (((a * 16 + b) * 16 + c) * 16 + d)
      | _ \<Rightarrow> None)"

text \<open>
  \<open>scanstring\<close> with \<open>strict=True\<close>, on the characters after the opening quote. \<open>b\<close> is
  the number of characters left at the opening quote, \<open>acc\<close> the characters decoded so
  far. The regular expression \<open>STRINGCHUNK\<close> stops at the first quote, backslash or control
  character, which is what reading one character at a time does.
\<close>

function scanstring :: "nat \<Rightarrow> pystr \<Rightarrow> pystr \<Rightarrow> pystr scanned" where
  "scanstring b acc [] = Inl (UnterminatedString, b)"
| "scanstring b acc (c # cs) =
     (if c = 34 then Inr (acc, cs)
      else if c = 92 then
        (case cs of
           [] \<Rightarrow> Inl (UnterminatedString, b)
         | esc # cs' \<Rightarrow>
             if esc = 117 then
               (case decode_uXXXX cs' of
                  None \<Rightarrow> Inl (InvalidUXXXX, length cs)
                | Some uni \<Rightarrow>
                    let rest = drop 4 cs' in
                    if 55296 \<le> uni \<and> uni \<le> 56319 \<and> take 2 rest = [92, 117] then
                      (case decode_uXXXX (drop 2 rest) of
                         None \<Rightarrow> Inl (InvalidUXXXX, length rest - 1)
                       | Some uni2 \<Rightarrow>
                           if 56320 \<le> uni2 \<and> uni2 \<le> 57343 then
                             scanstring b
                               (acc @ [65536 + ((uni - 55296) * 1024 + (uni2 - 56320))])
                               (drop 6 rest)
                           else scanstring b (acc @ [uni]) rest)
                    else scanstring b (acc @ [uni]) rest)
             else
               (case BACKSLASH esc of
                  None \<Rightarrow> Inl (InvalidEscape, Suc (length cs))
                | Some ch \<Rightarrow> scanstring b (acc @ [ch]) cs'))
      else if c < 32 then Inl (InvalidControlCharacter, Suc (length cs))
      else scanstring b (acc @ [c]) cs)"
  by pat_completeness auto
termination
  by (relation "measure (\<lambda>(b, acc, cs). length cs)") auto

text \<open>
  \<open>NUMBER_RE = (-?(?:0|[1-9][0-9]*))(\.[0-9]+)?([eE][-+]?[0-9]+)?\<close>: the three groups and
  the rest of the text, or \<open>None\<close> when there is no match. An absent group is the empty
  string.
\<close>

definition is_digit :: "nat \<Rightarrow> bool" where
  "is_digit c \<longleftrightarrow> 48 \<le> c \<and> c \<le> 57"

definition match_integer :: "pystr \<Rightarrow> (pystr \<times> pystr) option" where
  "match_integer cs =
     (let (sign, r) = (case cs of c # r \<Rightarrow> if c = 45 then ([45], r) else ([], cs) | [] \<Rightarrow> ([], cs))
      in case r of
           [] \<Rightarrow> None
         | d # r' \<Rightarrow>
             if d = 48 then Some (sign @ [48], r')
             else if is_digit d then Some (sign @ takeWhile is_digit r, dropWhile is_digit r)
             else None)"

definition match_frac :: "pystr \<Rightarrow> pystr \<times> pystr" where
  "match_frac cs =
     (case cs of
        c # r \<Rightarrow>
          if c = 46 then
            (if takeWhile is_digit r = [] then ([], cs)
             else (46 # takeWhile is_digit r, dropWhile is_digit r))
          else ([], cs)
      | [] \<Rightarrow> ([], cs))"

definition match_exp :: "pystr \<Rightarrow> pystr \<times> pystr" where
  "match_exp cs =
     (case cs of
        c # r \<Rightarrow>
          if c = 101 \<or> c = 69 then
            (let (sign, r') = (case r of s # t \<Rightarrow> if s = 45 \<or> s = 43 then ([s], t) else ([], r)
                                       | [] \<Rightarrow> ([], r))
             in if takeWhile is_digit r' = [] then ([], cs)
                else (c # sign @ takeWhile is_digit r', dropWhile is_digit r'))
          else ([], cs)
      | [] \<Rightarrow> ([], cs))"

definition match_number :: "pystr \<Rightarrow> (pystr \<times> pystr \<times> pystr \<times> pystr) option" where
  "match_number cs =
     (case match_integer cs of
        None \<Rightarrow> None
      | Some (integer, r) \<Rightarrow>
          (let (frac, r') = match_frac r; (ex, r'') = match_exp r'
           in Some (integer, frac, ex, r'')))"

text \<open>\<open>int(integer)\<close> on a match of the first group.\<close>

definition nat_of_digits :: "pystr \<Rightarrow> nat" where
  "nat_of_digits ds = foldl (\<lambda>n d. 10 * n + (d - 48)) 0 ds"

definition parse_int :: "pystr \<Rightarrow> int" where
  "parse_int cs =
     (case cs of
        c # r \<Rightarrow> if c = 45 then - int (nat_of_digits r) else int (nat_of_digits cs)
      | [] \<Rightarrow> 0)"

text \<open>
  \<open>dict(pairs)\<close>: a key that is already there keeps its place and takes the new value.
\<close>

definition dict_set :: "(pystr \<times> json) list \<Rightarrow> pystr \<times> json \<Rightarrow> (pystr \<times> json) list" where
  "dict_set d kv =
     (if fst kv \<in> fst ` set d then map (\<lambda>p. if fst p = fst kv then kv else p) d
      else d @ [kv])"

definition dict_of :: "(pystr \<times> json) list \<Rightarrow> (pystr \<times> json) list" where
  "dict_of pairs = foldl dict_set [] pairs"

text \<open>
  \<open>scan_once\<close>, \<open>JSONArray\<close> and \<open>JSONObject\<close>. \<open>fl\<close> is \<open>parse_float\<close> followed by
  \<open>floatstr\<close>: the text the encoder prints for the \<open>float\<close> of a literal. The first
  argument after it bounds the number of calls; \<open>decode\<close> gives more than the document
  can use. \<open>array_loop\<close> starts where a value is expected, \<open>object_loop\<close> after the
  opening quote of a key. A \<open>StopIteration\<close> of \<open>scan_once\<close> becomes the error
  \<open>Expecting value\<close> in every caller, so it is that error here.
\<close>

fun scan_once :: "(pystr \<Rightarrow> pystr) \<Rightarrow> nat \<Rightarrow> pystr \<Rightarrow> json scanned"
  and array_loop :: "(pystr \<Rightarrow> pystr) \<Rightarrow> nat \<Rightarrow> json list \<Rightarrow> pystr \<Rightarrow> json scanned"
  and object_loop :: "(pystr \<Rightarrow> pystr) \<Rightarrow> nat \<Rightarrow> (pystr \<times> json) list \<Rightarrow> pystr \<Rightarrow> json scanned"
where
  "scan_once fl 0 cs = Inl (NestingTooDeep, length cs)"
| "scan_once fl (Suc n) cs =
     (case cs of
        [] \<Rightarrow> Inl (ExpectingValue, 0)
      | c # r \<Rightarrow>
          if c = 34 then
            (case scanstring (length cs) [] r of
               Inl e \<Rightarrow> Inl e
             | Inr (s, r') \<Rightarrow> Inr (JStr s, r'))
          else if c = 123 then
            (case skip_ws r of
               [] \<Rightarrow> Inl (ExpectingPropertyName, 0)
             | q # r' \<Rightarrow>
                 if q = 125 then Inr (JObj [], r')
                 else if q = 34 then object_loop fl n [] r'
                 else Inl (ExpectingPropertyName, Suc (length r')))
          else if c = 91 then
            (case skip_ws r of
               [] \<Rightarrow> Inl (ExpectingValue, 0)
             | q # r' \<Rightarrow>
                 if q = 93 then Inr (JArr [], r')
                 else array_loop fl n [] (q # r'))
          else if take 4 cs = str_of ''null'' then Inr (JNull, drop 4 cs)
          else if take 4 cs = str_of ''true'' then Inr (JBool True, drop 4 cs)
          else if take 5 cs = str_of ''false'' then Inr (JBool False, drop 5 cs)
          else
            (case match_number cs of
               Some (integer, frac, ex, r') \<Rightarrow>
                 if frac = [] \<and> ex = [] then Inr (JInt (parse_int integer), r')
                 else Inr (JFloat (fl (integer @ frac @ ex)), r')
             | None \<Rightarrow>
                 if take 3 cs = str_of ''NaN'' then Inr (JFloat (str_of ''NaN''), drop 3 cs)
                 else if take 8 cs = str_of ''Infinity'' then
                   Inr (JFloat (str_of ''Infinity''), drop 8 cs)
                 else if take 9 cs = str_of ''-Infinity'' then
                   Inr (JFloat (str_of ''-Infinity''), drop 9 cs)
                 else Inl (ExpectingValue, length cs)))"
| "array_loop fl 0 vs cs = Inl (NestingTooDeep, length cs)"
| "array_loop fl (Suc n) vs cs =
     (case scan_once fl n cs of
        Inl e \<Rightarrow> Inl e
      | Inr (v, r) \<Rightarrow>
          (case skip_ws r of
             [] \<Rightarrow> Inl (ExpectingComma, 0)
           | d # r' \<Rightarrow>
               if d = 93 then Inr (JArr (vs @ [v]), r')
               else if d = 44 then array_loop fl n (vs @ [v]) (skip_ws r')
               else Inl (ExpectingComma, Suc (length r'))))"
| "object_loop fl 0 pairs cs = Inl (NestingTooDeep, length cs)"
| "object_loop fl (Suc n) pairs cs =
     (case scanstring (Suc (length cs)) [] cs of
        Inl e \<Rightarrow> Inl e
      | Inr (key, r1) \<Rightarrow>
          (case skip_ws r1 of
             [] \<Rightarrow> Inl (ExpectingColon, 0)
           | c # r2 \<Rightarrow>
               if c = 58 then
                 (case scan_once fl n (skip_ws r2) of
                    Inl e \<Rightarrow> Inl e
                  | Inr (v, r3) \<Rightarrow>
                      (case skip_ws r3 of
                         [] \<Rightarrow> Inl (ExpectingComma, 0)
                       | d # r4 \<Rightarrow>
                           if d = 125 then Inr (JObj (dict_of (pairs @ [(key, v)])), r4)
                           else if d = 44 then
                             (case skip_ws r4 of
                                [] \<Rightarrow> Inl (ExpectingPropertyName, 0)
                              | q # r5 \<Rightarrow>
                                  if q = 34 then object_loop fl n (pairs @ [(key, v)]) r5
                                  else Inl (ExpectingPropertyName, Suc (length r5)))
                           else Inl (ExpectingComma, Suc (length r4))))
               else Inl (ExpectingColon, Suc (length r2))))"

text \<open>
  \<open>JSONDecoder.decode\<close>: leading white space, one value, trailing white space, and the
  end of the document. The result is the value or the message and the index of the error.
\<close>

definition decode :: "(pystr \<Rightarrow> pystr) \<Rightarrow> pystr \<Rightarrow> (jmsg \<times> nat) + json" where
  "decode fl s =
     (case scan_once fl (Suc (length s)) (skip_ws s) of
        Inl (m, left) \<Rightarrow> Inl (m, length s - left)
      | Inr (obj, r) \<Rightarrow>
          (if skip_ws r = [] then Inr obj
           else Inl (ExtraData, length s - length (skip_ws r))))"

section \<open>Codecs\<close>

text \<open>
  What a codec reports when it fails: the reason, where the offending bytes (or
  characters) start and where they end.
\<close>

datatype reason =
    InvalidStartByte
  | InvalidContinuationByte
  | UnexpectedEndOfData
  | TruncatedData
  | CodePointNotInRange
  | SurrogatesNotAllowed

definition is_surrogate :: "nat \<Rightarrow> bool" where
  "is_surrogate c \<longleftrightarrow> 55296 \<le> c \<and> c \<le> 57343"

text \<open>The UTF-8 encoding of one code point that is not a surrogate.\<close>

definition utf8_char :: "nat \<Rightarrow> nat list" where
  "utf8_char c =
     (if c < 128 then [c]
      else if c < 2048 then [192 + c div 64, 128 + c mod 64]
      else if c < 65536 then [224 + c div 4096, 128 + c div 64 mod 64, 128 + c mod 64]
      else [240 + c div 262144, 128 + c div 4096 mod 64, 128 + c div 64 mod 64, 128 + c mod 64])"

text \<open>
  \<open>str.encode('utf-8')\<close>, strict: the bytes, or the first run of surrogates with its
  start and end index.
\<close>

fun utf8_encode_from :: "nat \<Rightarrow> pystr \<Rightarrow> (reason \<times> nat \<times> nat) + bytes" where
  "utf8_encode_from i [] = Inr []"
| "utf8_encode_from i (c # cs) =
     (if is_surrogate c then
        Inl (SurrogatesNotAllowed, i, i + length (takeWhile is_surrogate (c # cs)))
      else case utf8_encode_from (Suc i) cs of
             Inl e \<Rightarrow> Inl e
           | Inr bs \<Rightarrow> Inr (map char_of (utf8_char c) @ bs))"

definition utf8_encode :: "pystr \<Rightarrow> (reason \<times> nat \<times> nat) + bytes" where
  "utf8_encode s = utf8_encode_from 0 s"

definition is_cont :: "nat \<Rightarrow> bool" where
  "is_cont b \<longleftrightarrow> 128 \<le> b \<and> b < 192"

text \<open>
  One step of the UTF-8 decoder on the values of the bytes: a code point and the rest, or
  the reason and the number of bytes it covers. \<open>sp\<close> is the error handler
  \<open>surrogatepass\<close>, which lets the three-byte form of a surrogate through.
\<close>

definition utf8_step :: "bool \<Rightarrow> nat list \<Rightarrow> (reason \<times> nat) + (nat \<times> nat list)" where
  "utf8_step sp bs =
     (case bs of
        [] \<Rightarrow> Inl (UnexpectedEndOfData, 0)
      | b0 # r \<Rightarrow>
          if b0 < 128 then Inr (b0, r)
          else if b0 < 194 then Inl (InvalidStartByte, 1)
          else if b0 < 224 then
            (case r of
               [] \<Rightarrow> Inl (UnexpectedEndOfData, 1)
             | b1 # r1 \<Rightarrow>
                 if is_cont b1 then Inr ((b0 - 192) * 64 + (b1 - 128), r1)
                 else Inl (InvalidContinuationByte, 1))
          else if b0 < 240 then
            (case r of
               [] \<Rightarrow> Inl (UnexpectedEndOfData, 1)
             | b1 # r1 \<Rightarrow>
                 if b1 < 128 \<or> 192 \<le> b1 \<or> (b0 = 224 \<and> b1 < 160) then
                   Inl (InvalidContinuationByte, 1)
                 else if b0 = 237 \<and> 160 \<le> b1 then
                   (case r1 of
                      [] \<Rightarrow> Inl (InvalidContinuationByte, 1)
                    | b2 # r2 \<Rightarrow>
                        if sp \<and> is_cont b2 then
                          Inr ((b0 - 224) * 4096 + (b1 - 128) * 64 + (b2 - 128), r2)
                        else Inl (InvalidContinuationByte, 1))
                 else
                   (case r1 of
                      [] \<Rightarrow> Inl (UnexpectedEndOfData, 2)
                    | b2 # r2 \<Rightarrow>
                        if is_cont b2 then
                          Inr ((b0 - 224) * 4096 + (b1 - 128) * 64 + (b2 - 128), r2)
                        else Inl (InvalidContinuationByte, 2)))
          else if b0 < 245 then
            (case r of
               [] \<Rightarrow> Inl (UnexpectedEndOfData, 1)
             | b1 # r1 \<Rightarrow>
                 if b1 < 128 \<or> 192 \<le> b1 \<or> (b0 = 240 \<and> b1 < 144) \<or> (b0 = 244 \<and> 144 \<le> b1) then
                   Inl (InvalidContinuationByte, 1)
                 else
                   (case r1 of
                      [] \<Rightarrow> Inl (UnexpectedEndOfData, 2)
                    | b2 # r2 \<Rightarrow>
                        if is_cont b2 then
                          (case r2 of
                             [] \<Rightarrow> Inl (UnexpectedEndOfData, 3)
                           | b3 # r3 \<Rightarrow>
                               if is_cont b3 then
                                 Inr ((b0 - 240) * 262144 + (b1 - 128) * 4096
                                      + (b2 - 128) * 64 + (b3 - 128), r3)
                               else Inl (InvalidContinuationByte, 3))
                        else Inl (InvalidContinuationByte, 2)))
          else Inl (InvalidStartByte, 1))"

text \<open>The decoder loop; \<open>n\<close> bounds the number of steps and \<open>i\<close> is the index in the data.\<close>

fun utf8_decode_from :: "bool \<Rightarrow> nat \<Rightarrow> nat \<Rightarrow> nat list \<Rightarrow> (reason \<times> nat \<times> nat) + pystr" where
  "utf8_decode_from sp 0 i bs = Inr []"
| "utf8_decode_from sp (Suc n) i bs =
     (if bs = [] then Inr []
      else case utf8_step sp bs of
             Inl (why, k) \<Rightarrow> Inl (why, i, i + k)
           | Inr (c, r) \<Rightarrow>
               (case utf8_decode_from sp n (i + (length bs - length r)) r of
                  Inl e \<Rightarrow> Inl e
                | Inr cs \<Rightarrow> Inr (c # cs)))"

definition utf8_decode :: "bool \<Rightarrow> bytes \<Rightarrow> (reason \<times> nat \<times> nat) + pystr" where
  "utf8_decode sp bs = utf8_decode_from sp (length bs) 0 (map of_char bs)"

text \<open>
  UTF-16 and UTF-32 with \<open>surrogatepass\<close>, for \<open>json.loads\<close> on \<open>bytes\<close>; \<open>le\<close> is the
  byte order. A low surrogate after a high one makes one code point, any other
  surrogate passes as it is.
\<close>

definition unit16 :: "bool \<Rightarrow> nat \<Rightarrow> nat \<Rightarrow> nat" where
  "unit16 le a b = (if le then b * 256 + a else a * 256 + b)"

fun utf16_decode_from :: "bool \<Rightarrow> nat \<Rightarrow> nat list \<Rightarrow> (reason \<times> nat \<times> nat) + pystr" where
  "utf16_decode_from le i [] = Inr []"
| "utf16_decode_from le i [a] = Inl (TruncatedData, i, Suc i)"
| "utf16_decode_from le i [a, b] = Inr [unit16 le a b]"
| "utf16_decode_from le i [a, b, c] = Inl (TruncatedData, i + 2, i + 3)"
| "utf16_decode_from le i (a # b # c # d # r) =
     (let u = unit16 le a b; u2 = unit16 le c d
      in if 55296 \<le> u \<and> u \<le> 56319 \<and> 56320 \<le> u2 \<and> u2 \<le> 57343 then
           (case utf16_decode_from le (i + 4) r of
              Inl e \<Rightarrow> Inl e
            | Inr cs \<Rightarrow> Inr ((65536 + ((u - 55296) * 1024 + (u2 - 56320))) # cs))
         else
           (case utf16_decode_from le (i + 2) (c # d # r) of
              Inl e \<Rightarrow> Inl e
            | Inr cs \<Rightarrow> Inr (u # cs)))"

fun utf32_decode_from :: "bool \<Rightarrow> nat \<Rightarrow> nat list \<Rightarrow> (reason \<times> nat \<times> nat) + pystr" where
  "utf32_decode_from le i (a # b # c # d # r) =
     (let u = (if le then ((d * 256 + c) * 256 + b) * 256 + a
               else ((a * 256 + b) * 256 + c) * 256 + d)
      in if 1114112 \<le> u then Inl (CodePointNotInRange, i, i + 4)
         else case utf32_decode_from le (i + 4) r of
                Inl e \<Rightarrow> Inl e
              | Inr cs \<Rightarrow> Inr (u # cs))"
| "utf32_decode_from le i [] = Inr []"
| "utf32_decode_from le i bs = Inl (TruncatedData, i, i + length bs)"

text \<open>\<open>detect_encoding\<close> of \<open>json/__init__.py\<close>, on the values of the bytes.\<close>

datatype encoding = UTF8 | UTF8_SIG | UTF16 | UTF16_LE | UTF16_BE | UTF32 | UTF32_LE | UTF32_BE

definition detect_encoding :: "nat list \<Rightarrow> encoding" where
  "detect_encoding b =
     (if take 4 b = [0, 0, 254, 255] \<or> take 4 b = [255, 254, 0, 0] then UTF32
      else if take 2 b = [254, 255] \<or> take 2 b = [255, 254] then UTF16
      else if take 3 b = [239, 187, 191] then UTF8_SIG
      else if 4 \<le> length b then
        (if b ! 0 = 0 then (if b ! 1 = 0 then UTF32_BE else UTF16_BE)
         else if b ! 1 = 0 then (if b ! 2 = 0 \<and> b ! 3 = 0 then UTF32_LE else UTF16_LE)
         else UTF8)
      else if length b = 2 then
        (if b ! 0 = 0 then UTF16_BE else if b ! 1 = 0 then UTF16_LE else UTF8)
      else UTF8)"

text \<open>\<open>bytes.decode(encoding, 'surrogatepass')\<close> for these encodings.\<close>

definition bytes_decode :: "encoding \<Rightarrow> bytes \<Rightarrow> (reason \<times> nat \<times> nat) + pystr" where
  "bytes_decode enc bs =
     (let b = map of_char bs
      in case enc of
           UTF8 \<Rightarrow> utf8_decode True bs
         | UTF8_SIG \<Rightarrow>
             (if take 3 b = [239, 187, 191] then utf8_decode_from True (length b) 3 (drop 3 b)
              else utf8_decode True bs)
         | UTF16_LE \<Rightarrow> utf16_decode_from True 0 b
         | UTF16_BE \<Rightarrow> utf16_decode_from False 0 b
         | UTF16 \<Rightarrow>
             (if take 2 b = [255, 254] then utf16_decode_from True 2 (drop 2 b)
              else if take 2 b = [254, 255] then utf16_decode_from False 2 (drop 2 b)
              else utf16_decode_from True 0 b)
         | UTF32_LE \<Rightarrow> utf32_decode_from True 0 b
         | UTF32_BE \<Rightarrow> utf32_decode_from False 0 b
         | UTF32 \<Rightarrow>
             (if take 4 b = [255, 254, 0, 0] then utf32_decode_from True 4 (drop 4 b)
              else if take 4 b = [0, 0, 254, 255] then utf32_decode_from False 4 (drop 4 b)
              else utf32_decode_from True 0 b))"

section \<open>Exceptions\<close>

text \<open>
  The exceptions the script can meet, with the data their \<open>str\<close> is made of. The script
  tells \<open>botocore.exceptions.ClientError\<close> from every other \<open>Exception\<close> and prints
  \<open>str(e)\<close>; of an exception raised by the client library only that text matters.
\<close>

datatype exn =
    ClientError pystr
  | OSError nat pystr pystr
  | UnicodeDecodeError pystr "nat list" nat nat reason
  | UnicodeEncodeError pystr pystr nat nat reason
  | JSONDecodeError jmsg pystr nat
  | OtherError pystr

fun is_ClientError :: "exn \<Rightarrow> bool" where
  "is_ClientError (ClientError m) = True"
| "is_ClientError e = False"

fun reason_text :: "reason \<Rightarrow> pystr" where
  "reason_text InvalidStartByte = str_of ''invalid start byte''"
| "reason_text InvalidContinuationByte = str_of ''invalid continuation byte''"
| "reason_text UnexpectedEndOfData = str_of ''unexpected end of data''"
| "reason_text TruncatedData = str_of ''truncated data''"
| "reason_text CodePointNotInRange = str_of ''code point not in range(0x110000)''"
| "reason_text SurrogatesNotAllowed = str_of ''surrogates not allowed''"

fun jmsg_text :: "jmsg \<Rightarrow> pystr" where
  "jmsg_text ExpectingValue = str_of ''Expecting value''"
| "jmsg_text ExtraData = str_of ''Extra data''"
| "jmsg_text ExpectingPropertyName = str_of ''Expecting property name enclosed in double quotes''"
| "jmsg_text ExpectingColon = str_of ''Expecting ':' delimiter''"
| "jmsg_text ExpectingComma = str_of ''Expecting ',' delimiter''"
| "jmsg_text UnterminatedString = str_of ''Unterminated string starting at''"
| "jmsg_text InvalidControlCharacter = str_of ''Invalid control character at''"
| "jmsg_text InvalidEscape = str_of ''Invalid '' @ [92] @ str_of ''escape''"
| "jmsg_text InvalidUXXXX = str_of ''Invalid '' @ [92] @ str_of ''uXXXX escape''"
| "jmsg_text UnexpectedBOM = str_of ''Unexpected UTF-8 BOM (decode using utf-8-sig)''"
| "jmsg_text NestingTooDeep = str_of ''maximum recursion depth exceeded''"

definition hex_digits :: "nat \<Rightarrow> nat \<Rightarrow> pystr" where
  "hex_digits w n = map (\<lambda>k. hexdigit (n div 16 ^ k mod 16)) (rev [0..<w])"

text \<open>The escape of a character in the message of a \<open>UnicodeEncodeError\<close>.\<close>

definition char_escape :: "nat \<Rightarrow> pystr" where
  "char_escape c =
     (if c \<le> 255 then [92, 120] @ hex_digits 2 c
      else if c \<le> 65535 then [92, 117] @ hex_digits 4 c
      else [92, 85] @ hex_digits 8 c)"

fun str_exn :: "exn \<Rightarrow> pystr" where
  "str_exn (ClientError m) = m"
| "str_exn (OtherError m) = m"
| "str_exn (OSError errno strerror filename) =
     str_of ''[Errno '' @ digits10 errno @ str_of ''] '' @ strerror @ str_of '': '' @ filename"
| "str_exn (UnicodeDecodeError enc obj start end why) =
     (if start < length obj \<and> end = start + 1 then
        [39] @ enc @ [39] @ str_of '' codec can't decode byte 0x'' @ hex_digits 2 (obj ! start)
        @ str_of '' in position '' @ digits10 start @ str_of '': '' @ reason_text why
      else
        [39] @ enc @ [39] @ str_of '' codec can't decode bytes in position '' @ digits10 start
        @ [45] @ digits10 (end - 1) @ str_of '': '' @ reason_text why)"
| "str_exn (UnicodeEncodeError enc obj start end why) =
     (if start < length obj \<and> end = start + 1 then
        [39] @ enc @ [39] @ str_of '' codec can't encode character '' @ [39]
        @ char_escape (obj ! start) @ [39]
        @ str_of '' in position '' @ digits10 start @ str_of '': '' @ reason_text why
      else
        [39] @ enc @ [39] @ str_of '' codec can't encode characters in position ''
        @ digits10 start @ [45] @ digits10 (end - 1) @ str_of '': '' @ reason_text why)"
| "str_exn (JSONDecodeError msg doc pos) =
     (let pre = take pos doc;
          lineno = count_list pre 10 + 1;
          colno = length (takeWhile (\<lambda>c. c \<noteq> 10) (rev pre)) + 1
      in jmsg_text msg @ str_of '': line '' @ digits10 lineno @ str_of '' column ''
         @ digits10 colno @ str_of '' (char '' @ digits10 pos @ [41])"

section \<open>\<open>json.load\<close>, \<open>json.loads\<close>, \<open>json.dump\<close>\<close>

text \<open>\<open>json.loads\<close> on a \<open>str\<close>.\<close>

definition json_loads :: "(pystr \<Rightarrow> pystr) \<Rightarrow> pystr \<Rightarrow> exn + json" where
  "json_loads fl s =
     (if take 1 s = [65279] then Inl (JSONDecodeError UnexpectedBOM s 0)
      else case decode fl s of
             Inl (m, pos) \<Rightarrow> Inl (JSONDecodeError m s pos)
           | Inr obj \<Rightarrow> Inr obj)"

fun encoding_name :: "encoding \<Rightarrow> bytes \<Rightarrow> pystr" where
  "encoding_name UTF8 bs = str_of ''utf-8''"
| "encoding_name UTF8_SIG bs = str_of ''utf-8''"
| "encoding_name UTF16_LE bs = str_of ''utf-16-le''"
| "encoding_name UTF16_BE bs = str_of ''utf-16-be''"
| "encoding_name UTF16 bs =
     (if take 2 (map of_char bs) = [254, 255 :: nat] then str_of ''utf-16-be''
      else str_of ''utf-16-le'')"
| "encoding_name UTF32_LE bs = str_of ''utf-32-le''"
| "encoding_name UTF32_BE bs = str_of ''utf-32-be''"
| "encoding_name UTF32 bs =
     (if take 4 (map of_char bs) = [0, 0, 254, 255 :: nat] then str_of ''utf-32-be''
      else str_of ''utf-32-le'')"

text \<open>
  \<open>json.loads\<close> on \<open>bytes\<close>: \<open>s.decode(detect_encoding(s), 'surrogatepass')\<close>, then as on a
  \<open>str\<close> but without the test for a byte order mark.
\<close>

definition json_loads_bytes :: "(pystr \<Rightarrow> pystr) \<Rightarrow> bytes \<Rightarrow> exn + json" where
  "json_loads_bytes fl bs =
     (let enc = detect_encoding (map of_char bs)
      in case bytes_decode enc bs of
           Inl (why, start, end) \<Rightarrow>
             Inl (UnicodeDecodeError (encoding_name enc bs) (map of_char bs) start end why)
         | Inr s \<Rightarrow>
             (case decode fl s of
                Inl (m, pos) \<Rightarrow> Inl (JSONDecodeError m s pos)
              | Inr obj \<Rightarrow> Inr obj))"

text \<open>
  Reading a file opened with \<open>open(path, 'r', encoding='utf-8')\<close>: strict UTF-8, and
  the universal newlines of text mode.
\<close>

fun universal_newlines :: "pystr \<Rightarrow> pystr" where
  "universal_newlines (c # d # cs) =
     (if c = 13 \<and> d = 10 then 10 # universal_newlines cs
      else if c = 13 then 10 # universal_newlines (d # cs)
      else c # universal_newlines (d # cs))"
| "universal_newlines [c] = (if c = 13 then [10] else [c])"
| "universal_newlines [] = []"

definition text_read :: "bytes \<Rightarrow> exn + pystr" where
  "text_read bs =
     (case utf8_decode False bs of
        Inl (why, start, end) \<Rightarrow>
          Inl (UnicodeDecodeError (str_of ''utf-8'') (map of_char bs) start end why)
      | Inr s \<Rightarrow> Inr (universal_newlines s))"

text \<open>\<open>json.load(f)\<close> is \<open>json.loads(f.read())\<close>.\<close>

definition json_load :: "(pystr \<Rightarrow> pystr) \<Rightarrow> bytes \<Rightarrow> exn + json" where
  "json_load fl bs =
     (case text_read bs of
        Inl e \<Rightarrow> Inl e
      | Inr s \<Rightarrow> json_loads fl s)"

text \<open>
  \<open>json.dump(obj, f, ensure_ascii=False, indent=2)\<close> writes the chunks of \<open>iterencode\<close>
  to \<open>f\<close> one by one. A file opened with \<open>encoding='utf-8'\<close> encodes each chunk when it is
  written; the chunks written before a failing one reach the file when it is closed.
  The result is the bytes that reach the file and the exception, if there is one.
\<close>

fun write_chunks :: "pystr list \<Rightarrow> bytes \<times> exn option" where
  "write_chunks [] = ([], None)"
| "write_chunks (c # cs) =
     (case utf8_encode c of
        Inl (why, start, end) \<Rightarrow> ([], Some (UnicodeEncodeError (str_of ''utf-8'') c start end why))
      | Inr bs \<Rightarrow> (let (rest, err) = write_chunks cs in (bs @ rest, err)))"

definition json_dump :: "json \<Rightarrow> bytes \<times> exn option" where
  "json_dump obj = write_chunks (iterencode dump_encoder 0 obj)"

section \<open>The world of one run\<close>

text \<open>
  What the script calls and does not define. \<open>boto3_client service region\<close> is the
  exception \<open>boto3.client\<close> raises, if it raises one. \<open>invoke_model service region
  modelId body\<close> is what the client made for that service and region does with
  \<open>invoke_model(modelId=..., body=...)\<close>: it raises, or returns a response whose
  \<open>['body'].read()\<close> raises or gives bytes. \<open>floatstr_of\<close> is the text \<open>floatstr\<close> prints
  for the \<open>float\<close> of a number literal, \<open>py_repr\<close> is \<open>repr\<close> on a file name.
\<close>

record env =
  boto3_client :: "pystr \<Rightarrow> pystr \<Rightarrow> exn option"
  invoke_model :: "pystr \<Rightarrow> pystr \<Rightarrow> pystr \<Rightarrow> pystr \<Rightarrow> exn + (exn + bytes)"
  floatstr_of :: "pystr \<Rightarrow> pystr"
  py_repr :: "pystr \<Rightarrow> pystr"

text \<open>What the script does to the outside, in order.\<close>

datatype event =
    OpenRead pystr
  | OpenWrite pystr
  | CreateClient pystr pystr
  | InvokeModel pystr pystr pystr pystr

text \<open>
  The state a run changes: the regular files by path, the error \<open>open\<close> fails with for a
  path and a mode (\<open>True\<close> for writing) when the system refuses it (errno and message),
  the lines printed, and the events so far.
\<close>

record world =
  files :: "pystr \<Rightarrow> bytes option"
  open_error :: "pystr \<Rightarrow> bool \<Rightarrow> (nat \<times> pystr) option"
  stdout :: "pystr list"
  events :: "event list"

definition log_event :: "event \<Rightarrow> world \<Rightarrow> world" where
  "log_event ev w = w\<lparr>events := events w @ [ev]\<rparr>"

definition print :: "pystr \<Rightarrow> world \<Rightarrow> world" where
  "print line w = w\<lparr>stdout := stdout w @ [line]\<rparr>"

text \<open>\<open>open(path, 'r', encoding='utf-8')\<close> and reading all of the file.\<close>

definition open_read :: "env \<Rightarrow> world \<Rightarrow> pystr \<Rightarrow> exn + bytes" where
  "open_read en w path =
     (case open_error w path False of
        Some (errno, strerror) \<Rightarrow> Inl (OSError errno strerror (py_repr en path))
      | None \<Rightarrow>
          (case files w path of
             None \<Rightarrow> Inl (OSError 2 (str_of ''No such file or directory'') (py_repr en path))
           | Some data \<Rightarrow> Inr data))"

text \<open>\<open>open(path, 'w', encoding='utf-8')\<close>: the file is created or truncated.\<close>

definition open_write :: "env \<Rightarrow> world \<Rightarrow> pystr \<Rightarrow> exn + world" where
  "open_write en w path =
     (case open_error w path True of
        Some (errno, strerror) \<Rightarrow> Inl (OSError errno strerror (py_repr en path))
      | None \<Rightarrow> Inr (w\<lparr>files := (files w)(path \<mapsto> [])\<rparr>))"

definition write_file :: "pystr \<Rightarrow> bytes \<Rightarrow> world \<Rightarrow> world" where
  "write_file path data w = w\<lparr>files := (files w)(path \<mapsto> data)\<rparr>"

section \<open>\<open>Scripts/invoke_bedrock.py\<close>\<close>

definition service_name :: pystr where
  "service_name = str_of ''bedrock-runtime''"

definition region_name :: pystr where
  "region_name = str_of ''ap-northeast-1''"

definition success_msg :: json where
  "success_msg =
     JObj [(str_of ''success'', JBool True), (str_of ''message'', JStr (str_of ''API call successful''))]"

definition error_msg :: "pystr \<Rightarrow> exn \<Rightarrow> json" where
  "error_msg label e =
     JObj [(str_of ''success'', JBool False), (str_of ''error'', JStr label),
           (str_of ''details'', JStr (str_exn e))]"

text \<open>
  The body of the \<open>try\<close> statement of \<open>invoke_bedrock\<close>, lines 15 to 38: the exception
  that leaves it, if one does, and the world at that point.
\<close>

definition try_body :: "env \<Rightarrow> pystr \<Rightarrow> pystr \<Rightarrow> pystr \<Rightarrow> world \<Rightarrow> exn option \<times> world" where
  "try_body en model_id input_file output_file w =
     (let w1 = log_event (OpenRead input_file) w
      in case open_read en w1 input_file of
           Inl e \<Rightarrow> (Some e, w1)
         | Inr data \<Rightarrow>
       (case json_load (floatstr_of en) data of
           Inl e \<Rightarrow> (Some e, w1)
         | Inr request_body \<Rightarrow>
       (let w2 = log_event (CreateClient service_name region_name) w1
        in case boto3_client en service_name region_name of
           Some e \<Rightarrow> (Some e, w2)
         | None \<Rightarrow>
       (let body = json_dumps request_body;
            w3 = log_event (InvokeModel service_name region_name model_id body) w2
        in case invoke_model en service_name region_name model_id body of
           Inl e \<Rightarrow> (Some e, w3)
         | Inr (Inl e) \<Rightarrow> (Some e, w3)
         | Inr (Inr raw) \<Rightarrow>
       (case json_loads_bytes (floatstr_of en) raw of
           Inl e \<Rightarrow> (Some e, w3)
         | Inr response_body \<Rightarrow>
       (let w4 = log_event (OpenWrite output_file) w3
        in case open_write en w4 output_file of
           Inl e \<Rightarrow> (Some e, w4)
         | Inr w5 \<Rightarrow>
       (case json_dump response_body of
           (written, Some e) \<Rightarrow> (Some e, write_file output_file written w5)
         | (written, None) \<Rightarrow>
             (None, print (json_dumps success_msg) (write_file output_file written w5)))))))))"

text \<open>\<open>invoke_bedrock\<close>: the value returned and the world after the call.\<close>

definition invoke_bedrock :: "env \<Rightarrow> pystr \<Rightarrow> pystr \<Rightarrow> pystr \<Rightarrow> world \<Rightarrow> int \<times> world" where
  "invoke_bedrock en model_id input_file output_file w =
     (case try_body en model_id input_file output_file w of
        (None, w') \<Rightarrow> (0, w')
      | (Some e, w') \<Rightarrow>
          if is_ClientError e then
            (1, print (json_dumps (error_msg (str_of ''AWS API Error'') e)) w')
          else
            (1, print (json_dumps (error_msg (str_of ''Unexpected Error'') e)) w'))"

definition usage :: pystr where
  "usage = str_of ''Usage: python3 invoke_bedrock.py <model_id> <input.json> <output.json>''"

text \<open>
  The \<open>__main__\<close> block, on \<open>sys.argv\<close>: the exit status of the process and the world
  after it.
\<close>

definition main :: "env \<Rightarrow> pystr list \<Rightarrow> world \<Rightarrow> int \<times> world" where
  "main en argv w =
     (if length argv \<noteq> 4 then (1, print usage w)
      else invoke_bedrock en (argv ! 1) (argv ! 2) (argv ! 3) w)"

section \<open>The output format in the words of the specification\<close>

text \<open>
  The format of the output file in the words of the specification: UTF-8, 2-space
  indentation, non-ASCII characters emitted literally. \<open>spec_pretty lvl v\<close> is the text of
  \<open>v\<close> at nesting depth \<open>lvl\<close>: every element of a non-empty array and every member of a
  non-empty object is on a line of its own, indented by two spaces for each level.
\<close>

definition spec_newline :: "nat \<Rightarrow> pystr" where
  "spec_newline lvl = 10 # replicate (2 * lvl) 32"

fun spec_pretty :: "nat \<Rightarrow> json \<Rightarrow> pystr"
  and spec_pretty_items :: "nat \<Rightarrow> json list \<Rightarrow> pystr"
  and spec_pretty_members :: "nat \<Rightarrow> (pystr \<times> json) list \<Rightarrow> pystr"
where
  "spec_pretty lvl JNull = str_of ''null''"
| "spec_pretty lvl (JBool b) = (if b then str_of ''true'' else str_of ''false'')"
| "spec_pretty lvl (JInt i) = int_repr i"
| "spec_pretty lvl (JFloat r) = r"
| "spec_pretty lvl (JStr s) = py_encode_basestring s"
| "spec_pretty lvl (JArr xs) =
     (if xs = [] then str_of ''[]''
      else [91] @ spec_newline (lvl + 1) @ spec_pretty_items (lvl + 1) xs @ spec_newline lvl @ [93])"
| "spec_pretty lvl (JObj kvs) =
     (if kvs = [] then str_of ''{}''
      else [123] @ spec_newline (lvl + 1) @ spec_pretty_members (lvl + 1) kvs
           @ spec_newline lvl @ [125])"
| "spec_pretty_items lvl [] = []"
| "spec_pretty_items lvl (x # xs) =
     spec_pretty lvl x @ (if xs = [] then [] else [44] @ spec_newline lvl @ spec_pretty_items lvl xs)"
| "spec_pretty_members lvl [] = []"
| "spec_pretty_members lvl (kv # kvs) =
     py_encode_basestring (fst kv) @ str_of '': '' @ spec_pretty lvl (snd kv)
     @ (if kvs = [] then [] else [44] @ spec_newline lvl @ spec_pretty_members lvl kvs)"

text \<open>The strings of a value: its string values and the names of its members.\<close>

fun json_strings :: "json \<Rightarrow> pystr list"
  and json_strings_items :: "json list \<Rightarrow> pystr list"
  and json_strings_members :: "(pystr \<times> json) list \<Rightarrow> pystr list"
where
  "json_strings (JStr s) = [s]"
| "json_strings (JArr xs) = json_strings_items xs"
| "json_strings (JObj kvs) = json_strings_members kvs"
| "json_strings JNull = []"
| "json_strings (JBool b) = []"
| "json_strings (JInt i) = []"
| "json_strings (JFloat r) = []"
| "json_strings_items [] = []"
| "json_strings_items (x # xs) = json_strings x @ json_strings_items xs"
| "json_strings_members [] = []"
| "json_strings_members (kv # kvs) = fst kv # json_strings (snd kv) @ json_strings_members kvs"

section \<open>Sample runs\<close>

text \<open>
  The runs of the specification's testable properties: an input file with
  \<open>{"prompt": "hi"}\<close> and a stubbed remote call that answers \<open>{"reply": "ok"}\<close>.
\<close>

definition sample_input :: bytes where
  "sample_input = map char_of (str_of ''{\"prompt\": \"hi\"}'')"
definition sample_reply :: bytes where
  "sample_reply = map char_of (str_of ''{\"reply\": \"ok\"}'')"
definition sample_output :: bytes where
  "sample_output = map char_of ([123, 10, 32, 32] @ str_of ''\"reply\": \"ok\"'' @ [10, 125])"
definition echo_env :: env where
  "echo_env = \<lparr>boto3_client = (\<lambda>s r. None),
          invoke_model = (\<lambda>s r m b. Inr (Inr sample_reply)),
          floatstr_of = (\<lambda>x. x), py_repr = (\<lambda>p. [39] @ p @ [39])\<rparr>"
definition sample_world :: world where
  "sample_world = \<lparr>files = (\<lambda>p. if p = str_of ''input.json'' then Some sample_input else None),
          open_error = (\<lambda>p m. None), stdout = [], events = []\<rparr>"






definition malformed_world :: world where
  "malformed_world =
     \<lparr>files = (\<lambda>p. if p = str_of ''input.json'' then Some (map char_of (str_of ''{\"prompt\": '')) else None),
      open_error = (\<lambda>p m. None), stdout = [], events = []\<rparr>"








definition nihao_text :: pystr where
  "nihao_text = str_of ''{\"reply\": \"'' @ [20320, 22909] @ str_of ''\"}''"

definition nihao_reply :: bytes where
  "nihao_reply = map char_of (str_of ''{\"reply\": \"'' @ [228, 189, 160, 229, 165, 189] @ str_of ''\"}'')"

definition nihao_env :: env where
  "nihao_env = echo_env\<lparr>invoke_model := (\<lambda>s r m b. Inr (Inr nihao_reply))\<rparr>"

definition nihao_output :: bytes where
  "nihao_output = map char_of ([123, 10, 32, 32] @ str_of ''\"reply\": \"''
     @ [228, 189, 160, 229, 165, 189] @ str_of ''\"'' @ [10, 125])"

section \<open>The status line\<close>

lemma hexdigit_printable: "d < 16 \<Longrightarrow> 48 \<le> hexdigit d \<and> hexdigit d \<le> 102"
  by (simp add: hexdigit_def)

lemma hex4_printable: "x \<in> set (hex4 n) \<Longrightarrow> 48 \<le> x \<and> x \<le> 102"
  using hexdigit_printable [of "n div 4096 mod 16"] hexdigit_printable [of "n div 256 mod 16"]
    hexdigit_printable [of "n div 16 mod 16"] hexdigit_printable [of "n mod 16"]
  by (auto simp: hex4_def)

lemma ESCAPE_DCT_printable: "ESCAPE_DCT c = Some e \<Longrightarrow> x \<in> set e \<Longrightarrow> 32 \<le> x \<and> x \<le> 126"
  using hex4_printable [of x c]
  by (auto simp: ESCAPE_DCT_def split: if_splits)



lemma success_line: "json_dumps success_msg = str_of ''{\"success\": true, \"message\": \"API call successful\"}''"
  by code_simp






section \<open>Evaluating the sample run\<close>

lemma sample_input_text: "text_read sample_input = Inr (str_of ''{\"prompt\": \"hi\"}'')"
  by code_simp
lemma sample_input_value:
  "decode (\<lambda>x. x) (str_of ''{\"prompt\": \"hi\"}'') = Inr (JObj [(str_of ''prompt'', JStr (str_of ''hi''))])"
  by code_simp
lemma sample_load: "json_load (\<lambda>x. x) sample_input = Inr (JObj [(str_of ''prompt'', JStr (str_of ''hi''))])"
proof -
  have "take 1 (str_of ''{\"prompt\": \"hi\"}'') \<noteq> [65279]"
    by (simp add: str_of_def)
  then show ?thesis
    by (simp add: json_load_def json_loads_def sample_input_text sample_input_value)
qed
lemma sample_reply_text: "bytes_decode (detect_encoding (map of_char sample_reply)) sample_reply = Inr (str_of ''{\"reply\": \"ok\"}'')"
  by code_simp
lemma sample_reply_value:
  "decode (\<lambda>x. x) (str_of ''{\"reply\": \"ok\"}'') = Inr (JObj [(str_of ''reply'', JStr (str_of ''ok''))])"
  by code_simp
lemma sample_loads: "json_loads_bytes (\<lambda>x. x) sample_reply = Inr (JObj [(str_of ''reply'', JStr (str_of ''ok''))])"
  by (simp add: json_loads_bytes_def Let_def sample_reply_text sample_reply_value)
lemma sample_chunks: "iterencode dump_encoder 0 (JObj [(str_of ''reply'', JStr (str_of ''ok''))]) = [[123],[10,32,32],[34,114,101,112,108,121,34],[58,32],[34,111,107,34],[10],[125]]"
  by code_simp
lemma sample_dump: "json_dump (JObj [(str_of ''reply'', JStr (str_of ''ok''))]) = (sample_output, None)"
  unfolding json_dump_def sample_chunks sample_output_def
  by (simp add: utf8_encode_def utf8_char_def is_surrogate_def str_of_def)
lemma sample_body: "json_dumps (JObj [(str_of ''prompt'', JStr (str_of ''hi''))]) = str_of ''{\"prompt\": \"hi\"}''"
  by code_simp

lemma sample_try:
  "try_body echo_env (str_of ''m'') (str_of ''input.json'') (str_of ''output.json'') sample_world =
   (None, \<lparr>files = (files sample_world)(str_of ''output.json'' \<mapsto> sample_output),
        open_error = (\<lambda>p m. None),
        stdout = [str_of ''{\"success\": true, \"message\": \"API call successful\"}''],
        events = [OpenRead (str_of ''input.json''), CreateClient service_name region_name,
                  InvokeModel service_name region_name (str_of ''m'') (str_of ''{\"prompt\": \"hi\"}''),
                  OpenWrite (str_of ''output.json'')]\<rparr>)"
  by (simp add: try_body_def Let_def echo_env_def open_read_def sample_load sample_loads sample_dump
      sample_body success_line open_write_def write_file_def log_event_def print_def
      sample_world_def)

lemma sample_run:
  "invoke_bedrock echo_env (str_of ''m'') (str_of ''input.json'') (str_of ''output.json'') sample_world =
   (0, \<lparr>files = (files sample_world)(str_of ''output.json'' \<mapsto> sample_output),
        open_error = (\<lambda>p m. None),
        stdout = [str_of ''{\"success\": true, \"message\": \"API call successful\"}''],
        events = [OpenRead (str_of ''input.json''), CreateClient service_name region_name,
                  InvokeModel service_name region_name (str_of ''m'') (str_of ''{\"prompt\": \"hi\"}''),
                  OpenWrite (str_of ''output.json'')]\<rparr>)"
  by (simp add: invoke_bedrock_def sample_try)






section \<open>The control flow of a run\<close>

lemma open_read_events: "open_read en (w\<lparr>events := evs\<rparr>) p = open_read en w p"
  by (simp add: open_read_def split: option.splits)

lemmas run_defs = invoke_bedrock_def try_body_def Let_def open_read_events open_write_def
  write_file_def log_event_def print_def


text \<open>
  C4: when the argument count is not three (\<open>len(sys.argv) != 4\<close>), the program prints the
  usage message and exits with status 1; no file is read or written, no client is made and
  nothing else happens: the world is the one before, with the usage line appended to the
  standard output.
\<close>

theorem usage_gate:
  assumes "length argv \<noteq> 4"
  shows "main en argv w = (1, w\<lparr>stdout := stdout w @ [usage]\<rparr>)"
  using assms by (simp add: main_def print_def)

theorem usage_gate_witness:
  "length [str_of ''invoke_bedrock.py'', str_of ''m''] \<noteq> 4 \<and>
   main echo_env [str_of ''invoke_bedrock.py'', str_of ''m''] sample_world
     = (1, sample_world\<lparr>stdout := stdout sample_world @ [usage]\<rparr>)"
  using usage_gate [of "[str_of ''invoke_bedrock.py'', str_of ''m'']" echo_env sample_world]
  by simp





text \<open>
  C8: whatever the model identifier, the paths, the files and the behaviour of the remote
  service, every client a run makes and every call it sends is for the service
  \<open>bedrock-runtime\<close> in the region \<open>ap-northeast-1\<close>.
\<close>

theorem region_fixed:
  "\<exists>evs. events (snd (invoke_bedrock en model_id input_file output_file w)) = events w @ evs
     \<and> (\<forall>s r. CreateClient s r \<in> set evs \<longrightarrow> s = str_of ''bedrock-runtime'' \<and> r = str_of ''ap-northeast-1'')
     \<and> (\<forall>s r m b. InvokeModel s r m b \<in> set evs \<longrightarrow> s = str_of ''bedrock-runtime'' \<and> r = str_of ''ap-northeast-1'')"
  by (auto simp: run_defs service_name_def region_name_def split: sum.splits option.splits prod.splits)

theorem region_fixed_witness:
  "CreateClient (str_of ''bedrock-runtime'') (str_of ''ap-northeast-1'')
     \<in> set (events (snd (invoke_bedrock echo_env (str_of ''m'') (str_of ''input.json'')
               (str_of ''output.json'') sample_world)))
   \<and> (\<exists>evs. events (snd (invoke_bedrock echo_env (str_of ''m'') (str_of ''input.json'')
               (str_of ''output.json'') sample_world)) = events sample_world @ evs
     \<and> (\<forall>s r. CreateClient s r \<in> set evs \<longrightarrow> s = str_of ''bedrock-runtime'' \<and> r = str_of ''ap-northeast-1'')
     \<and> (\<forall>s r m b. InvokeModel s r m b \<in> set evs \<longrightarrow> s = str_of ''bedrock-runtime'' \<and> r = str_of ''ap-northeast-1''))"
  using region_fixed [of echo_env "str_of ''m''" "str_of ''input.json''" "str_of ''output.json''" sample_world]
  by (simp add: sample_run service_name_def region_name_def)

text \<open>
  C9: a run opens the output file for writing only after the input was read and parsed,
  the client was made, \<open>invoke_model\<close> returned, and the body of the response was read and
  parsed; then the events of the run are the read, the client, the call and the opening of
  the output file, in this order. In every other run no file is opened for writing and
  all files are as they were.
\<close>

theorem output_opened_last:
  "\<exists>evs. events (snd (invoke_bedrock en model_id input_file output_file w)) = events w @ evs
     \<and> ((\<exists>data request_body raw response_body.
            open_read en w input_file = Inr data
          \<and> json_load (floatstr_of en) data = Inr request_body
          \<and> boto3_client en service_name region_name = None
          \<and> invoke_model en service_name region_name model_id (json_dumps request_body) = Inr (Inr raw)
          \<and> json_loads_bytes (floatstr_of en) raw = Inr response_body
          \<and> evs = [OpenRead input_file, CreateClient service_name region_name,
                    InvokeModel service_name region_name model_id (json_dumps request_body),
                    OpenWrite output_file])
        \<or> (files (snd (invoke_bedrock en model_id input_file output_file w)) = files w
            \<and> (\<forall>p. OpenWrite p \<notin> set evs)))"
  by (auto simp: run_defs split: sum.splits option.splits prod.splits)

theorem output_opened_last_witness:
  "\<exists>evs. events (snd (invoke_bedrock echo_env (str_of ''m'') (str_of ''input.json'')
               (str_of ''output.json'') malformed_world)) = events malformed_world @ evs
     \<and> ((\<exists>data request_body raw response_body.
            open_read echo_env malformed_world (str_of ''input.json'') = Inr data
          \<and> json_load (floatstr_of echo_env) data = Inr request_body
          \<and> boto3_client echo_env service_name region_name = None
          \<and> invoke_model echo_env service_name region_name (str_of ''m'') (json_dumps request_body)
               = Inr (Inr raw)
          \<and> json_loads_bytes (floatstr_of echo_env) raw = Inr response_body
          \<and> evs = [OpenRead (str_of ''input.json''), CreateClient service_name region_name,
                    InvokeModel service_name region_name (str_of ''m'') (json_dumps request_body),
                    OpenWrite (str_of ''output.json'')])
        \<or> (files (snd (invoke_bedrock echo_env (str_of ''m'') (str_of ''input.json'')
               (str_of ''output.json'') malformed_world)) = files malformed_world
            \<and> (\<forall>p. OpenWrite p \<notin> set evs)))"
  by (rule output_opened_last)






section \<open>The output file\<close>

lemma utf8_encode_from_ok:
  "\<forall>c \<in> set s. \<not> is_surrogate c \<Longrightarrow>
     utf8_encode_from i s = Inr (concat (map (\<lambda>c. map char_of (utf8_char c)) s))"
  by (induction s arbitrary: i) simp_all

lemma utf8_encode_from_Inr:
  "utf8_encode_from i s = Inr bs \<Longrightarrow> \<forall>c \<in> set s. \<not> is_surrogate c"
  by (induction s arbitrary: i bs) (auto split: if_splits sum.splits)

lemma utf8_encode_Inr_iff:
  "utf8_encode s = Inr bs \<longleftrightarrow>
     (\<forall>c \<in> set s. \<not> is_surrogate c) \<and> bs = concat (map (\<lambda>c. map char_of (utf8_char c)) s)"
  using utf8_encode_from_ok [of s 0] utf8_encode_from_Inr [of 0 s bs]
  by (auto simp: utf8_encode_def)

lemma write_chunks_ok:
  "utf8_encode (concat cs) = Inr bs \<Longrightarrow> write_chunks cs = (bs, None)"
proof (induction cs arbitrary: bs)
  case Nil
  then show ?case by (simp add: utf8_encode_def)
next
  case (Cons c cs)
  from Cons.prems have c: "utf8_encode c = Inr (concat (map (\<lambda>c. map char_of (utf8_char c)) c))"
    and r: "utf8_encode (concat cs) = Inr (concat (map (\<lambda>c. map char_of (utf8_char c)) (concat cs)))"
    and b: "bs = concat (map (\<lambda>c. map char_of (utf8_char c)) c)
              @ concat (map (\<lambda>c. map char_of (utf8_char c)) (concat cs))"
    by (auto simp: utf8_encode_Inr_iff)
  from Cons.IH [OF r] c b show ?case by simp
qed

lemma atom_text_pretty: "atom_text dump_encoder v = Some t \<Longrightarrow> spec_pretty lvl v = t"
  by (cases v) (auto simp: encode_str_def dump_encoder_def)

lemma atom_text_None: "atom_text e v = None \<longleftrightarrow> (\<exists>xs. v = JArr xs) \<or> (\<exists>kvs. v = JObj kvs)"
  by (cases v) auto

lemma iterencode_atom: "atom_text e v = Some t \<Longrightarrow> iterencode e lvl v = [t]"
  by (cases v) auto

lemma dump_pretty:
  "concat (iterencode dump_encoder lvl v) = spec_pretty lvl v"
  "xs \<noteq> [] \<Longrightarrow> concat (iterencode_list dump_encoder lvl buf xs) = buf @ spec_pretty_items lvl xs"
  "kvs \<noteq> [] \<Longrightarrow> concat (iterencode_dict dump_encoder lvl first kvs)
     = (if first then [] else [44] @ spec_newline lvl) @ spec_pretty_members lvl kvs"
proof (induction dump_encoder lvl v and dump_encoder lvl buf xs and dump_encoder lvl first kvs
    rule: iterencode_iterencode_list_iterencode_dict.induct)
  case (1 lvl xs)
  then show ?case
    by (simp add: dump_encoder_def inner_level_def newline_indent_def closing_def spec_newline_def
        str_of_def)
next
  case (2 lvl kvs)
  then show ?case
    by (simp add: dump_encoder_def inner_level_def newline_indent_def closing_def spec_newline_def
        str_of_def)
next
  case (9 lvl buf x xs)
  show ?case
  proof (cases "atom_text dump_encoder x")
    case None
    with 9 show ?thesis
      by (cases "xs = []") (auto simp: dump_encoder_def newline_indent_def spec_newline_def)
  next
    case (Some t)
    with 9 atom_text_pretty [OF Some, of lvl] show ?thesis
      by (cases "xs = []") (auto simp: dump_encoder_def newline_indent_def spec_newline_def)
  qed
next
  case (11 lvl first kv kvs)
  show ?case
  proof (cases "atom_text dump_encoder (snd kv)")
    case None
    with 11 show ?thesis
      by (cases "kvs = []")
        (auto simp: dump_encoder_def newline_indent_def spec_newline_def encode_str_def str_of_def)
  next
    case (Some t)
    with 11 atom_text_pretty [OF Some, of lvl] show ?thesis
      by (cases "kvs = []")
        (auto simp: dump_encoder_def newline_indent_def spec_newline_def encode_str_def str_of_def)
  qed
qed (simp_all add: encode_str_def dump_encoder_def)

lemma count_list_concat_map:
  "(\<And>x. x \<in> set xs \<Longrightarrow> count_list (f x) c = count_list (g x) c) \<Longrightarrow>
     count_list (concat (map f xs)) c = count_list (concat (map g xs)) c"
  by (induction xs) simp_all

lemma count_list_hex4: "126 < c \<Longrightarrow> count_list (hex4 n) c = 0"
  using hex4_printable [of c n] by (auto simp: count_list_0_iff)

lemma replace_basestring_literal:
  assumes "128 \<le> c"
  shows "count_list (replace_basestring x) c = count_list [x] c"
proof (cases "ESCAPE x")
  case False
  then show ?thesis by (simp add: replace_basestring_def)
next
  case True
  then have "ESCAPE_DCT x \<noteq> None"
    by (auto simp: ESCAPE_def ESCAPE_DCT_def)
  then obtain e where e: "ESCAPE_DCT x = Some e"
    by blast
  from assms ESCAPE_DCT_printable [OF e, of c] have "c \<notin> set e"
    by auto
  with True e assms show ?thesis
    by (auto simp: replace_basestring_def ESCAPE_def count_list_0_iff)
qed

lemma encode_basestring_literal:
  assumes "128 \<le> c"
  shows "count_list (py_encode_basestring s) c = count_list s c"
proof -
  have "count_list (concat (map replace_basestring s)) c = count_list (concat (map (\<lambda>x. [x]) s)) c"
    using replace_basestring_literal [OF assms] by (intro count_list_concat_map) simp
  with assms show ?thesis
    by (simp add: py_encode_basestring_def)
qed

lemma pretty_literal:
  assumes "128 \<le> c"
  shows "count_list (concat (json_strings v)) c \<le> count_list (spec_pretty lvl v) c"
    and "count_list (concat (json_strings_items xs)) c \<le> count_list (spec_pretty_items lvl xs) c"
    and "count_list (concat (json_strings_members kvs)) c \<le> count_list (spec_pretty_members lvl kvs) c"
proof (induction lvl v and lvl xs and lvl kvs rule: spec_pretty_spec_pretty_items_spec_pretty_members.induct)
  case (5 lvl s)
  then show ?case using encode_basestring_literal [OF assms] by simp
next
  case (11 lvl kv kvs)
  then show ?case
    using encode_basestring_literal [OF assms, of "fst kv"]
    by (auto simp: add_le_mono trans_le_add1 trans_le_add2)
qed (auto simp: add_le_mono trans_le_add1 trans_le_add2)

lemma run_success:
  assumes "open_read en w input_file = Inr data"
    and "json_load (floatstr_of en) data = Inr request_body"
    and "boto3_client en service_name region_name = None"
    and "invoke_model en service_name region_name model_id (json_dumps request_body) = Inr (Inr raw)"
    and "json_loads_bytes (floatstr_of en) raw = Inr response_body"
    and "open_error w output_file True = None"
    and "utf8_encode (spec_pretty 0 response_body) = Inr written"
  shows "invoke_bedrock en model_id input_file output_file w =
     (0, w\<lparr>files := (files w)(output_file \<mapsto> written),
           stdout := stdout w @ [str_of ''{\"success\": true, \"message\": \"API call successful\"}''],
           events := events w
               @ [OpenRead input_file, CreateClient service_name region_name,
                  InvokeModel service_name region_name model_id (json_dumps request_body),
                  OpenWrite output_file]\<rparr>)"
proof -
  from assms(7) have "write_chunks (iterencode dump_encoder 0 response_body) = (written, None)"
    by (simp add: write_chunks_ok dump_pretty(1))
  with assms(1-6) show ?thesis
    by (simp add: run_defs json_dump_def success_line)
qed

lemma utf8_encode_sublist:
  assumes "utf8_encode text = Inr written" and "c \<in> set text"
  shows "sublist (map char_of (utf8_char c)) written"
proof -
  from assms(2) obtain a b where t: "text = a @ c # b"
    by (auto simp: in_set_conv_decomp)
  from assms(1) have "written = concat (map (\<lambda>c. map char_of (utf8_char c)) text)"
    by (simp add: utf8_encode_Inr_iff)
  with t have "written = concat (map (\<lambda>c. map char_of (utf8_char c)) a)
      @ map char_of (utf8_char c) @ concat (map (\<lambda>c. map char_of (utf8_char c)) b)"
    by simp
  then show ?thesis
    unfolding sublist_def by blast
qed


lemma nihao_reply_text:
  "bytes_decode (detect_encoding (map of_char nihao_reply)) nihao_reply = Inr nihao_text"
  by (simp add: nihao_reply_def nihao_text_def str_of_def detect_encoding_def bytes_decode_def
      utf8_decode_def utf8_step_def is_cont_def)

lemma nihao_reply_value:
  "decode (\<lambda>x. x) nihao_text = Inr (JObj [(str_of ''reply'', JStr [20320, 22909])])"
  by (simp add: nihao_text_def decode_def str_of_def skip_ws_def WHITESPACE_def dict_of_def
      dict_set_def)

lemma nihao_loads:
  "json_loads_bytes (\<lambda>x. x) nihao_reply = Inr (JObj [(str_of ''reply'', JStr [20320, 22909])])"
  by (simp add: json_loads_bytes_def Let_def nihao_reply_text nihao_reply_value)

lemma nihao_pretty:
  "utf8_encode (spec_pretty 0 (JObj [(str_of ''reply'', JStr [20320, 22909])])) = Inr nihao_output"
  by (simp add: py_encode_basestring_def replace_basestring_def ESCAPE_def spec_newline_def
      str_of_def utf8_encode_def utf8_char_def is_surrogate_def nihao_output_def numeral_2_eq_2)










text \<open>
  C5: in a run that writes the output file, every non-ASCII character of a string of the
  response value (a string value or a member name) is in the file literally: each of its
  occurrences in the strings is an occurrence in the text written (an escape sequence is
  ASCII only), and the file, which is the UTF-8 encoding of that text, contains the UTF-8
  bytes of the character.
\<close>

theorem non_ascii_literal:
  assumes "open_read en w input_file = Inr data"
    and "json_load (floatstr_of en) data = Inr request_body"
    and "boto3_client en service_name region_name = None"
    and "invoke_model en service_name region_name model_id (json_dumps request_body) = Inr (Inr raw)"
    and "json_loads_bytes (floatstr_of en) raw = Inr response_body"
    and "open_error w output_file True = None"
    and "utf8_encode (spec_pretty 0 response_body) = Inr written"
    and "s \<in> set (json_strings response_body)" and "c \<in> set s" and "128 \<le> c"
  shows "files (snd (invoke_bedrock en model_id input_file output_file w)) output_file = Some written
       \<and> count_list (concat (json_strings response_body)) c
            \<le> count_list (spec_pretty 0 response_body) c
       \<and> sublist (map char_of (utf8_char c)) written"
proof -
  have f: "files (snd (invoke_bedrock en model_id input_file output_file w)) output_file = Some written"
    by (simp add: run_success [OF assms(1-7)])
  have l: "count_list (concat (json_strings response_body)) c
            \<le> count_list (spec_pretty 0 response_body) c"
    using assms(10) by (rule pretty_literal(1))
  from assms(8,9) have "c \<in> set (concat (json_strings response_body))"
    by auto
  then have "count_list (concat (json_strings response_body)) c \<noteq> 0"
    using count_list_0_iff [of "concat (json_strings response_body)" c] by blast
  with l have "c \<in> set (spec_pretty 0 response_body)"
    using count_list_0_iff [of "spec_pretty 0 response_body" c] by auto
  with assms(7) have "sublist (map char_of (utf8_char c)) written"
    by (simp add: utf8_encode_sublist)
  with f l show ?thesis by simp
qed

theorem non_ascii_literal_witness:
  "open_read nihao_env sample_world (str_of ''input.json'') = Inr sample_input
   \<and> json_load (floatstr_of nihao_env) sample_input
       = Inr (JObj [(str_of ''prompt'', JStr (str_of ''hi''))])
   \<and> boto3_client nihao_env service_name region_name = None
   \<and> invoke_model nihao_env service_name region_name (str_of ''m'')
         (json_dumps (JObj [(str_of ''prompt'', JStr (str_of ''hi''))])) = Inr (Inr nihao_reply)
   \<and> json_loads_bytes (floatstr_of nihao_env) nihao_reply
       = Inr (JObj [(str_of ''reply'', JStr [20320, 22909])])
   \<and> open_error sample_world (str_of ''output.json'') True = None
   \<and> utf8_encode (spec_pretty 0 (JObj [(str_of ''reply'', JStr [20320, 22909])])) = Inr nihao_output
   \<and> [20320, 22909] \<in> set (json_strings (JObj [(str_of ''reply'', JStr [20320, 22909])]))
   \<and> (20320::nat) \<in> set [20320, 22909] \<and> (128::nat) \<le> 20320
   \<and> files (snd (invoke_bedrock nihao_env (str_of ''m'') (str_of ''input.json'')
          (str_of ''output.json'') sample_world)) (str_of ''output.json'') = Some nihao_output
   \<and> count_list (concat (json_strings (JObj [(str_of ''reply'', JStr [20320, 22909])]))) 20320
        \<le> count_list (spec_pretty 0 (JObj [(str_of ''reply'', JStr [20320, 22909])])) 20320
   \<and> sublist (map char_of (utf8_char 20320)) nihao_output"
proof -
  have a: "open_read nihao_env sample_world (str_of ''input.json'') = Inr sample_input"
    by (simp add: open_read_def sample_world_def)
  have b: "json_load (floatstr_of nihao_env) sample_input
       = Inr (JObj [(str_of ''prompt'', JStr (str_of ''hi''))])"
    by (simp add: nihao_env_def echo_env_def sample_load)
  have c: "boto3_client nihao_env service_name region_name = None"
    by (simp add: nihao_env_def echo_env_def)
  have d: "invoke_model nihao_env service_name region_name (str_of ''m'')
         (json_dumps (JObj [(str_of ''prompt'', JStr (str_of ''hi''))])) = Inr (Inr nihao_reply)"
    by (simp add: nihao_env_def)
  have e: "json_loads_bytes (floatstr_of nihao_env) nihao_reply
       = Inr (JObj [(str_of ''reply'', JStr [20320, 22909])])"
    by (simp add: nihao_env_def echo_env_def nihao_loads)
  have f: "open_error sample_world (str_of ''output.json'') True = None"
    by (simp add: sample_world_def)
  note g = nihao_pretty
  have h: "[20320, 22909] \<in> set (json_strings (JObj [(str_of ''reply'', JStr [20320, 22909])]))"
    by simp
  have i: "(20320::nat) \<in> set [20320, 22909]" and j: "(128::nat) \<le> 20320"
    by simp_all
  from non_ascii_literal [OF a b c d e f g h i j] a b c d e f g h i j show ?thesis by blast
qed

end
